theory Spec2Isabelle
  imports Complex_Main "HOL-Library.Product_Lexorder" "HOL-Library.Multiset"
begin

section \<open>Data model: the tables read and written by the routes\<close>

text \<open>
  The routes of \<^verbatim>\<open>app/routes/votes.py\<close> and \<^verbatim>\<open>app/routes/prompts.py\<close> talk to a
  PostgreSQL database through \<^verbatim>\<open>execute_query\<close>. A table is the list of its rows; a
  nullable column is an \<open>option\<close>; identifiers and timestamps are natural numbers,
  the value of a note is an integer; a status is the string the code compares it with. Only the columns that the modelled
  queries mention are kept (the \<^verbatim>\<open>password\<close> and \<^verbatim>\<open>role\<close> columns of
  \<^verbatim>\<open>utilisateur\<close> are never read by them: the role of a caller comes from the
  token). Columns of \<^verbatim>\<open>vote\<close> and \<^verbatim>\<open>note\<close> that share a name with a column of
  another table carry the alias the queries give the table (\<^verbatim>\<open>v\<close>, \<^verbatim>\<open>n\<close>).
\<close>

record utilisateur =
  id_utilisateur :: nat
  email :: string
  id_groupe :: "nat option"

record prompt =
  id_prompt :: nat
  description :: string
  prix :: "rat option"
  statut :: string
  id_createur :: nat
  date_creation :: nat
  date_derniere_modification :: "nat option"

record vote =
  id_vote :: nat
  v_id_utilisateur :: nat
  v_id_prompt :: nat

record note_row =
  id_note :: nat
  n_id_utilisateur :: nat
  n_id_prompt :: nat
  valeur :: int

record db =
  utilisateurs :: "utilisateur list"
  prompts :: "prompt list"
  votes :: "vote list"
  note_rows :: "note_row list"

text \<open>
  What a request finds around it: which of its calls of \<^verbatim>\<open>execute_query\<close> raise
  (numbered from 0 in the order the view function makes them), the clock
  (\<^verbatim>\<open>CURRENT_TIMESTAMP\<close>, \<^verbatim>\<open>datetime.datetime.now()\<close>) and the identifier the
  sequence of \<^verbatim>\<open>vote.id_vote\<close> hands to an \<^verbatim>\<open>INSERT\<close>.
\<close>

record env =
  raises :: "nat \<Rightarrow> bool"
  now :: nat
  next_id_vote :: nat

text \<open>The claims of a verified token: \<^verbatim>\<open>get_jwt_identity()\<close> and \<^verbatim>\<open>get_jwt()['role']\<close>.\<close>

record jwt =
  identity :: nat
  role :: string

text \<open>
  The answers of the view functions. \<open>Err c m\<close> is \<^verbatim>\<open>jsonify({"error": m}), c\<close>;
  \<open>Err500\<close> is the answer of an \<^verbatim>\<open>except Exception as e\<close> handler, whose message is
  \<^verbatim>\<open>str(e)\<close>; \<open>Uncaught\<close> is an exception that leaves the view function;
  \<open>Aborted c\<close> is an HTTP error raised by Flask itself, answered with code \<open>c\<close>. The rows
  of a \<^verbatim>\<open>RETURNING\<close> or \<^verbatim>\<open>SELECT\<close> clause are given by the table rows they
  project. The French messages are written without their diacritics.
\<close>

datatype response =
    Err nat string
  | Err500
  | Uncaught
  | Aborted nat
  | Vote_activated nat int prompt
  | Vote_recorded nat int int
  | Status_updated prompt
  | Activated_by_vote prompt int
  | Points_missing int
  | Prompt_list "(prompt \<times> utilisateur) list"
  | Prompt_detail prompt utilisateur "(rat \<times> nat) option"

section \<open>app/utils/db.py\<close>

text \<open>
  \<^verbatim>\<open>execute_query\<close> opens a connection, runs one statement and commits; when the
  statement raises it rolls back and raises again. So every call is a transaction of its
  own: \<open>None\<close> is the exception, with the committed state as it was.
\<close>

definition execute_query :: "bool \<Rightarrow> (db \<Rightarrow> db \<times> 'r) \<Rightarrow> db \<Rightarrow> db \<times> 'r option" where
  "execute_query fails query d =
     (if fails then (d, None) else (case query d of (d', result) \<Rightarrow> (d', Some result)))"

section \<open>The statements of app/routes/votes.py\<close>

definition check_query :: "nat \<Rightarrow> db \<Rightarrow> db \<times> prompt list" where
  "check_query prompt_id d = (d, [p \<leftarrow> prompts d. id_prompt p = prompt_id])"

definition check_vote_query :: "nat \<Rightarrow> nat \<Rightarrow> db \<Rightarrow> db \<times> vote list" where
  "check_vote_query current_user_id prompt_id d =
     (d, [v \<leftarrow> votes d. v_id_utilisateur v = current_user_id \<and> v_id_prompt v = prompt_id])"

definition vote_query :: "nat \<Rightarrow> nat \<Rightarrow> nat \<Rightarrow> db \<Rightarrow> db \<times> vote list" where
  "vote_query new_id current_user_id prompt_id d =
     (let v = \<lparr>id_vote = new_id, v_id_utilisateur = current_user_id, v_id_prompt = prompt_id\<rparr>
      in (d\<lparr>votes := votes d @ [v]\<rparr>, [v]))"

text \<open>
  The \<^verbatim>\<open>CASE\<close> of the points query. In SQL \<^verbatim>\<open>u1.id_groupe = u2.id_groupe\<close> is
  unknown when either side is \<^verbatim>\<open>NULL\<close>, and then the \<^verbatim>\<open>ELSE\<close> branch is taken; the
  second conjunct gives the same in HOL, where \<open>None = None\<close> holds.
\<close>

definition points_case :: "utilisateur \<Rightarrow> utilisateur \<Rightarrow> int" where
  "points_case u1 u2 = (if id_groupe u1 = id_groupe u2 \<and> id_groupe u1 \<noteq> None then 2 else 1)"

text \<open>\<^verbatim>\<open>SUM\<close> over no row is \<^verbatim>\<open>NULL\<close>.\<close>

definition sql_sum :: "'a::monoid_add list \<Rightarrow> 'a option" where
  "sql_sum xs = (if xs = [] then None else Some (sum_list xs))"

definition points_rows :: "nat \<Rightarrow> db \<Rightarrow> int list" where
  "points_rows prompt_id d =
     [points_case u1 u2.
        v \<leftarrow> votes d,
        u1 \<leftarrow> utilisateurs d, v_id_utilisateur v = id_utilisateur u1,
        p \<leftarrow> prompts d, v_id_prompt v = id_prompt p,
        u2 \<leftarrow> utilisateurs d, id_createur p = id_utilisateur u2,
        v_id_prompt v = prompt_id]"

definition points_query :: "nat \<Rightarrow> db \<Rightarrow> db \<times> int option" where
  "points_query prompt_id d = (d, sql_sum (points_rows prompt_id d))"

text \<open>
  \<^verbatim>\<open>points_result[0]['total_points'] if points_result[0]['total_points'] else 0\<close>:
  the aggregate has exactly one row; \<^verbatim>\<open>None\<close> and \<^verbatim>\<open>0\<close> are both falsy.
\<close>

definition total_points_of :: "int option \<Rightarrow> int" where
  "total_points_of s = (case s of None \<Rightarrow> 0 | Some t \<Rightarrow> if t \<noteq> 0 then t else 0)"

text \<open>
  \<^verbatim>\<open>UPDATE prompt SET statut = .., date_derniere_modification = .. WHERE id_prompt = ..
  RETURNING ..\<close>: every row with that identifier is rewritten and returned.
\<close>

definition set_statut :: "string \<Rightarrow> nat \<Rightarrow> nat \<Rightarrow> prompt \<Rightarrow> prompt" where
  "set_statut nouveau_statut stamp prompt_id p =
     (if id_prompt p = prompt_id
      then p\<lparr>statut := nouveau_statut, date_derniere_modification := Some stamp\<rparr> else p)"

definition update_statut_query :: "string \<Rightarrow> nat \<Rightarrow> nat \<Rightarrow> db \<Rightarrow> db \<times> prompt list" where
  "update_statut_query nouveau_statut stamp prompt_id d =
     (let ps = map (set_statut nouveau_statut stamp prompt_id) (prompts d)
      in (d\<lparr>prompts := ps\<rparr>, [p \<leftarrow> ps. id_prompt p = prompt_id]))"

definition update_query :: "nat \<Rightarrow> nat \<Rightarrow> db \<Rightarrow> db \<times> prompt list" where
  "update_query stamp prompt_id d = update_statut_query ''activer'' stamp prompt_id d"

section \<open>vote_prompt\<close>

text \<open>
  The body of the view function after \<^verbatim>\<open>@jwt_required()\<close> has accepted the token:
  \<open>current_user_id\<close> is \<^verbatim>\<open>get_jwt_identity()\<close>. The first two calls of
  \<^verbatim>\<open>execute_query\<close> stand before the \<^verbatim>\<open>try\<close>, the other three inside it.
  \<^verbatim>\<open>update_result[0]\<close> on an empty list raises inside the \<^verbatim>\<open>try\<close>.
\<close>

definition vote_try :: "env \<Rightarrow> nat \<Rightarrow> nat \<Rightarrow> db \<Rightarrow> db \<times> response" where
  "vote_try e current_user_id prompt_id d =
     (case execute_query (raises e 2) (vote_query (next_id_vote e) current_user_id prompt_id) d of
        (d2, None) \<Rightarrow> (d2, Err500)
      | (d2, Some result) \<Rightarrow>
         (case execute_query (raises e 3) (points_query prompt_id) d2 of
            (d3, None) \<Rightarrow> (d3, Err500)
          | (d3, Some points_result) \<Rightarrow>
             (let total_points = total_points_of points_result in
              if total_points \<ge> 6 then
                (case execute_query (raises e 4) (update_query (now e) prompt_id) d3 of
                   (d4, None) \<Rightarrow> (d4, Err500)
                 | (d4, Some update_result) \<Rightarrow>
                    (case (result, update_result) of
                       (r # _, u # _) \<Rightarrow> (d4, Vote_activated (id_vote r) total_points u)
                     | _ \<Rightarrow> (d4, Err500)))
              else
                (case result of
                   r # _ \<Rightarrow> (d3, Vote_recorded (id_vote r) total_points (6 - total_points))
                 | [] \<Rightarrow> (d3, Err500)))))"

definition vote_prompt :: "env \<Rightarrow> nat \<Rightarrow> nat \<Rightarrow> db \<Rightarrow> db \<times> response" where
  "vote_prompt e current_user_id prompt_id d =
     (case execute_query (raises e 0) (check_query prompt_id) d of
        (d0, None) \<Rightarrow> (d0, Uncaught)
      | (d0, Some prompt) \<Rightarrow>
         (case prompt of
            [] \<Rightarrow> (d0, Err 404 ''Prompt non trouve'')
          | p # _ \<Rightarrow>
             if statut p \<noteq> ''rappel''
             then (d0, Err 400 ''Ce prompt n'est pas en etat de Rappel'')
             else if id_createur p = current_user_id
             then (d0, Err 403 ''Vous ne pouvez pas voter pour votre propre prompt'')
             else
               (case execute_query (raises e 1) (check_vote_query current_user_id prompt_id) d0 of
                  (d1, None) \<Rightarrow> (d1, Uncaught)
                | (d1, Some existing_vote) \<Rightarrow>
                   if existing_vote \<noteq> []
                   then (d1, Err 409 ''Vous avez deja vote pour ce prompt'')
                   else vote_try e current_user_id prompt_id d1)))"

section \<open>The view functions of app/routes/prompts.py\<close>

subsection \<open>update_prompt_status\<close>

text \<open>
  What \<^verbatim>\<open>request.get_json()\<close> finds (Flask 2.1 and later). \<open>Not_json\<close>: the
  request does not announce JSON, and Flask aborts with 415. \<open>Malformed\<close>: the body
  does not parse, and Flask aborts with 400. \<open>Non_object\<close>: a truthy JSON value that is
  not an object, on which \<^verbatim>\<open>data.get\<close> raises \<^verbatim>\<open>AttributeError\<close>. \<open>Json x\<close>: a
  falsy value or an object; \<open>x\<close> is the entry \<^verbatim>\<open>statut\<close> of the object when it has a truthy
  one, a string (\<open>Str\<close>) or some other value (\<open>Non_str\<close>), which is never an element of
  \<^verbatim>\<open>statuts_valides\<close>.
\<close>

datatype statut_value = Str string | Non_str

datatype body = Not_json | Malformed | Non_object | Json "statut_value option"

definition statuts_valides :: "string list" where
  "statuts_valides = [''en_attente'', ''activer'', ''a_revoir'', ''rappel'', ''a_supprimer'']"

definition status_try :: "env \<Rightarrow> string \<Rightarrow> nat \<Rightarrow> db \<Rightarrow> db \<times> response" where
  "status_try e nouveau_statut prompt_id d =
     (case execute_query (raises e 1) (update_statut_query nouveau_statut (now e) prompt_id) d of
        (d1, None) \<Rightarrow> (d1, Err500)
      | (d1, Some []) \<Rightarrow> (d1, Err500)
      | (d1, Some (r # _)) \<Rightarrow> (d1, Status_updated r))"

definition update_prompt_status :: "env \<Rightarrow> jwt \<Rightarrow> body \<Rightarrow> nat \<Rightarrow> db \<Rightarrow> db \<times> response" where
  "update_prompt_status e jwt_data data prompt_id d =
     (case data of
        Not_json \<Rightarrow> (d, Aborted 415)
      | Malformed \<Rightarrow> (d, Aborted 400)
      | Non_object \<Rightarrow> (d, Uncaught)
      | Json None \<Rightarrow> (d, Err 400 ''Statut du prompt requis'')
      | Json (Some Non_str) \<Rightarrow> (d, Err 400 ''Statut invalide'')
      | Json (Some (Str nouveau_statut)) \<Rightarrow>
         if nouveau_statut = [] then (d, Err 400 ''Statut du prompt requis'')
         else if nouveau_statut \<notin> set statuts_valides then (d, Err 400 ''Statut invalide'')
         else
           (case execute_query (raises e 0) (check_query prompt_id) d of
              (d0, None) \<Rightarrow> (d0, Uncaught)
            | (d0, Some []) \<Rightarrow> (d0, Err 404 ''Prompt non trouve'')
            | (d0, Some (prompt # _)) \<Rightarrow>
               (let is_creator = (id_createur prompt = identity jwt_data) in
                if role jwt_data = ''admin'' then status_try e nouveau_statut prompt_id d0
                else if is_creator then
                  (if nouveau_statut \<noteq> ''a_supprimer''
                   then (d0, Err 403 ''Vous ne pouvez que demander la suppression de votre prompt'')
                   else status_try e nouveau_statut prompt_id d0)
                else (d0, Err 403 ''Acces non autorise''))))"

subsection \<open>activate_prompt_by_vote\<close>

text \<open>
  The check and the points query stand before the \<^verbatim>\<open>try\<close>; only the update is
  inside it.
\<close>

definition activate_prompt_by_vote :: "env \<Rightarrow> jwt \<Rightarrow> nat \<Rightarrow> db \<Rightarrow> db \<times> response" where
  "activate_prompt_by_vote e jwt_data prompt_id d =
     (if role jwt_data \<noteq> ''admin'' then (d, Err 403 ''Acces non autorise'')
      else
        (case execute_query (raises e 0) (check_query prompt_id) d of
           (d0, None) \<Rightarrow> (d0, Uncaught)
         | (d0, Some prompt) \<Rightarrow>
            if prompt = [] \<or> statut (hd prompt) \<noteq> ''rappel''
            then (d0, Err 400 ''Ce prompt ne peut pas etre active par vote'')
            else
              (case execute_query (raises e 1) (points_query prompt_id) d0 of
                 (d1, None) \<Rightarrow> (d1, Uncaught)
               | (d1, Some points_result) \<Rightarrow>
                  (let total_points = total_points_of points_result in
                   if total_points < 6 then (d1, Points_missing total_points)
                   else
                     (case execute_query (raises e 2) (update_query (now e) prompt_id) d1 of
                        (d2, None) \<Rightarrow> (d2, Err500)
                      | (d2, Some []) \<Rightarrow> (d2, Err500)
                      | (d2, Some (r # _)) \<Rightarrow> (d2, Activated_by_vote r total_points))))))"

subsection \<open>get_pending_prompts\<close>

text \<open>
  The \<^verbatim>\<open>CASE\<close> of the \<^verbatim>\<open>ORDER BY\<close> clause has no \<^verbatim>\<open>ELSE\<close>: any other status
  gives \<^verbatim>\<open>NULL\<close>, which an ascending order puts last (5 here); the \<^verbatim>\<open>WHERE\<close>
  clause lets no such row through. The order among rows with equal keys is not fixed
  by SQL; the model takes the stable one.
\<close>

definition statut_rank :: "string \<Rightarrow> nat" where
  "statut_rank s =
     (if s = ''a_supprimer'' then 1
      else if s = ''rappel'' then 2
      else if s = ''en_attente'' then 3
      else if s = ''a_revoir'' then 4
      else 5)"

definition pending_key :: "prompt \<times> utilisateur \<Rightarrow> nat \<times> nat" where
  "pending_key r = (statut_rank (statut (fst r)), date_creation (fst r))"

definition pending_query :: "db \<Rightarrow> db \<times> (prompt \<times> utilisateur) list" where
  "pending_query d =
     (d, sort_key pending_key
           [(p, u).
              p \<leftarrow> prompts d,
              u \<leftarrow> utilisateurs d, id_createur p = id_utilisateur u,
              statut p \<in> set [''en_attente'', ''a_revoir'', ''a_supprimer'', ''rappel'']])"

definition get_pending_prompts :: "env \<Rightarrow> jwt \<Rightarrow> db \<Rightarrow> db \<times> response" where
  "get_pending_prompts e jwt_data d =
     (if role jwt_data \<noteq> ''admin'' then (d, Err 403 ''Acces non autorise'')
      else
        (case execute_query (raises e 0) pending_query d of
           (d0, None) \<Rightarrow> (d0, Err500)
         | (d0, Some rows) \<Rightarrow> (d0, Prompt_list rows)))"

subsection \<open>The token in a route without decorator\<close>




subsection \<open>get_prompts\<close>



subsection \<open>The arithmetic of the note query\<close>








subsection \<open>get_prompt\<close>






section \<open>The keys of the tables\<close>

text \<open>
  Modelled from the spec: the declarations of the tables (\<^verbatim>\<open>CREATE TABLE\<close>) are not
  among the source files. The spec gives every User, Prompt, Vote and Note an \<^verbatim>\<open>id\<close>
  and lets \<^verbatim>\<open>creatorId\<close>, \<^verbatim>\<open>voterId\<close>, \<^verbatim>\<open>raterId\<close> and \<^verbatim>\<open>promptId\<close> refer to one:
  identifiers are unique in their table, and a reference names a row that exists.
\<close>

definition user_ids :: "db \<Rightarrow> nat set" where
  "user_ids d = set (map id_utilisateur (utilisateurs d))"

definition prompt_ids :: "db \<Rightarrow> nat set" where
  "prompt_ids d = set (map id_prompt (prompts d))"

definition wf_db :: "db \<Rightarrow> bool" where
  "wf_db d \<longleftrightarrow>
     distinct (map id_utilisateur (utilisateurs d)) \<and>
     distinct (map id_prompt (prompts d)) \<and>
     list_all (\<lambda>p. id_createur p \<in> user_ids d) (prompts d) \<and>
     list_all (\<lambda>v. v_id_utilisateur v \<in> user_ids d \<and> v_id_prompt v \<in> prompt_ids d) (votes d) \<and>
     list_all (\<lambda>n. n_id_utilisateur n \<in> user_ids d \<and> n_id_prompt n \<in> prompt_ids d) (note_rows d)"

section \<open>Status codes\<close>

text \<open>The second component of what each \<^verbatim>\<open>return\<close> of a view function gives Flask.\<close>

fun http_status :: "response \<Rightarrow> nat" where
  "http_status (Err c m) = c"
| "http_status Err500 = 500"
| "http_status Uncaught = 500"
| "http_status (Aborted c) = c"
| "http_status (Vote_activated i t u) = 200"
| "http_status (Vote_recorded i t n) = 200"
| "http_status (Status_updated r) = 200"
| "http_status (Activated_by_vote r t) = 200"
| "http_status (Points_missing t) = 400"
| "http_status (Prompt_list rows) = 200"
| "http_status (Prompt_detail p u n) = 200"

section \<open>Concrete states\<close>

text \<open>
  A creator (user 1) and three voters of group 1, a user without a group and one of
  another group; prompt 1 is open for voting and has two votes from the creator's
  group, prompt 2 is active, prompt 3 waits for moderation.
\<close>

definition env_ok :: env where
  "env_ok = \<lparr>raises = (\<lambda>_. False), now = 100, next_id_vote = 7\<rparr>"

definition db_recall :: db where
  "db_recall =
     \<lparr>utilisateurs =
        [\<lparr>id_utilisateur = 1, email = ''a@x'', id_groupe = Some 1\<rparr>,
         \<lparr>id_utilisateur = 2, email = ''b@x'', id_groupe = Some 1\<rparr>,
         \<lparr>id_utilisateur = 3, email = ''c@x'', id_groupe = Some 1\<rparr>,
         \<lparr>id_utilisateur = 4, email = ''d@x'', id_groupe = Some 1\<rparr>,
         \<lparr>id_utilisateur = 5, email = ''e@x'', id_groupe = None\<rparr>,
         \<lparr>id_utilisateur = 6, email = ''f@x'', id_groupe = Some 2\<rparr>],
      prompts =
        [\<lparr>id_prompt = 1, description = ''p1'', prix = None, statut = ''rappel'',
           id_createur = 1, date_creation = 10, date_derniere_modification = None\<rparr>,
         \<lparr>id_prompt = 2, description = ''p2'', prix = Some 1000, statut = ''activer'',
           id_createur = 1, date_creation = 20, date_derniere_modification = Some 30\<rparr>,
         \<lparr>id_prompt = 3, description = ''p3'', prix = None, statut = ''en_attente'',
           id_createur = 5, date_creation = 5, date_derniere_modification = None\<rparr>],
      votes =
        [\<lparr>id_vote = 1, v_id_utilisateur = 2, v_id_prompt = 1\<rparr>,
         \<lparr>id_vote = 2, v_id_utilisateur = 3, v_id_prompt = 1\<rparr>],
      note_rows =
        [\<lparr>id_note = 1, n_id_utilisateur = 2, n_id_prompt = 2, valeur = 5\<rparr>,
         \<lparr>id_note = 2, n_id_utilisateur = 6, n_id_prompt = 2, valeur = 10\<rparr>]\<rparr>"


text \<open>The same surroundings, except that the fifth call of \<^verbatim>\<open>execute_query\<close> raises.\<close>

definition env_update_fails :: env where
  "env_update_fails = \<lparr>raises = (\<lambda>k. k = 4), now = 100, next_id_vote = 7\<rparr>"

definition jwt_admin :: jwt where
  "jwt_admin = \<lparr>identity = 9, role = ''admin''\<rparr>"

definition jwt_creator :: jwt where
  "jwt_creator = \<lparr>identity = 1, role = ''user''\<rparr>"

definition jwt_other :: jwt where
  "jwt_other = \<lparr>identity = 5, role = ''user''\<rparr>"

section \<open>The rules as the specification words them\<close>

text \<open>
  The point weighting rule of the specification, for comparison with the points query:
  a vote counts 2 when the voter's group is not null and equals the group of the
  prompt's creator, else 1; the total is the sum over the votes recorded for the prompt.
  \<open>groupe_of\<close> and \<open>creator_group\<close> look the groups up by identifier.
\<close>

definition weight :: "nat option \<Rightarrow> nat option \<Rightarrow> int" where
  "weight voter_group creator_group =
     (if voter_group \<noteq> None \<and> voter_group = creator_group then 2 else 1)"

definition groupe_of :: "db \<Rightarrow> nat \<Rightarrow> nat option" where
  "groupe_of d uid =
     (case find (\<lambda>u. id_utilisateur u = uid) (utilisateurs d) of
        None \<Rightarrow> None | Some u \<Rightarrow> id_groupe u)"

definition creator_group :: "db \<Rightarrow> nat \<Rightarrow> nat option" where
  "creator_group d pid =
     (case find (\<lambda>p. id_prompt p = pid) (prompts d) of
        None \<Rightarrow> None | Some p \<Rightarrow> groupe_of d (id_createur p))"

definition spec_total_points :: "db \<Rightarrow> nat \<Rightarrow> int" where
  "spec_total_points d pid =
     (\<Sum>v \<leftarrow> [v \<leftarrow> votes d. v_id_prompt v = pid].
        weight (groupe_of d (v_id_utilisateur v)) (creator_group d pid))"




text \<open>
  The four statuses the specification lists for the moderation queue (pending,
  needs_review, deletion_requested, recall), and the row of \<^verbatim>\<open>utilisateur\<close> that a
  prompt's \<^verbatim>\<open>id_createur\<close> refers to.
\<close>

definition statuts_pending :: "string list" where
  "statuts_pending = [''en_attente'', ''a_revoir'', ''a_supprimer'', ''rappel'']"

definition createur :: "db \<Rightarrow> prompt \<Rightarrow> utilisateur" where
  "createur d p = the (find (\<lambda>u. id_utilisateur u = id_createur p) (utilisateurs d))"

section \<open>Two requests at once\<close>

text \<open>
  Every call of \<^verbatim>\<open>execute_query\<close> is a transaction of its own, committed before the
  next one starts, and \<open>vote_prompt\<close> holds no lock between its calls. So a second
  request can run any of its statements between two statements of the first. A request
  in progress is at one of the calls of \<open>vote_prompt\<close>, with the values it has read so
  far, or has its answer; \<open>vote_step\<close> runs the next call and the Python that follows
  it up to the call after.
\<close>

datatype pc =
    P_check
  | P_check_vote
  | P_insert
  | P_points "vote list"
  | P_update "vote list" int
  | P_done response

fun vote_step :: "env \<Rightarrow> nat \<Rightarrow> nat \<Rightarrow> pc \<Rightarrow> db \<Rightarrow> db \<times> pc" where
  "vote_step e current_user_id prompt_id P_check d =
     (case execute_query (raises e 0) (check_query prompt_id) d of
        (d0, None) \<Rightarrow> (d0, P_done Uncaught)
      | (d0, Some prompt) \<Rightarrow>
         (case prompt of
            [] \<Rightarrow> (d0, P_done (Err 404 ''Prompt non trouve''))
          | p # _ \<Rightarrow>
             if statut p \<noteq> ''rappel''
             then (d0, P_done (Err 400 ''Ce prompt n'est pas en etat de Rappel''))
             else if id_createur p = current_user_id
             then (d0, P_done (Err 403 ''Vous ne pouvez pas voter pour votre propre prompt''))
             else (d0, P_check_vote)))"
| "vote_step e current_user_id prompt_id P_check_vote d =
     (case execute_query (raises e 1) (check_vote_query current_user_id prompt_id) d of
        (d1, None) \<Rightarrow> (d1, P_done Uncaught)
      | (d1, Some existing_vote) \<Rightarrow>
         if existing_vote \<noteq> []
         then (d1, P_done (Err 409 ''Vous avez deja vote pour ce prompt''))
         else (d1, P_insert))"
| "vote_step e current_user_id prompt_id P_insert d =
     (case execute_query (raises e 2) (vote_query (next_id_vote e) current_user_id prompt_id) d of
        (d2, None) \<Rightarrow> (d2, P_done Err500)
      | (d2, Some result) \<Rightarrow> (d2, P_points result))"
| "vote_step e current_user_id prompt_id (P_points result) d =
     (case execute_query (raises e 3) (points_query prompt_id) d of
        (d3, None) \<Rightarrow> (d3, P_done Err500)
      | (d3, Some points_result) \<Rightarrow>
         (let total_points = total_points_of points_result in
          if total_points \<ge> 6 then (d3, P_update result total_points)
          else
            (case result of
               r # _ \<Rightarrow> (d3, P_done (Vote_recorded (id_vote r) total_points (6 - total_points)))
             | [] \<Rightarrow> (d3, P_done Err500))))"
| "vote_step e current_user_id prompt_id (P_update result total_points) d =
     (case execute_query (raises e 4) (update_query (now e) prompt_id) d of
        (d4, None) \<Rightarrow> (d4, P_done Err500)
      | (d4, Some update_result) \<Rightarrow>
         (case (result, update_result) of
            (r # _, u # _) \<Rightarrow> (d4, P_done (Vote_activated (id_vote r) total_points u))
          | _ \<Rightarrow> (d4, P_done Err500)))"
| "vote_step e current_user_id prompt_id (P_done r) d = (d, P_done r)"

text \<open>A request alone: its steps one after the other.\<close>

fun vote_run :: "nat \<Rightarrow> env \<Rightarrow> nat \<Rightarrow> nat \<Rightarrow> pc \<Rightarrow> db \<Rightarrow> db \<times> pc" where
  "vote_run 0 e current_user_id prompt_id c d = (d, c)"
| "vote_run (Suc k) e current_user_id prompt_id c d =
     (case vote_step e current_user_id prompt_id c d of
        (d', c') \<Rightarrow> vote_run k e current_user_id prompt_id c' d')"

text \<open>
  Two requests on the same prompt, each with its own clock, vote identifier and caller;
  the schedule says whose statement runs next (\<open>True\<close>: the first request's).
\<close>

fun interleave ::
  "bool list \<Rightarrow> env \<times> nat \<Rightarrow> env \<times> nat \<Rightarrow> nat \<Rightarrow> pc \<times> pc \<Rightarrow> db \<Rightarrow> db \<times> pc \<times> pc" where
  "interleave [] A B prompt_id (a, b) d = (d, a, b)"
| "interleave (True # s) A B prompt_id (a, b) d =
     (case vote_step (fst A) (snd A) prompt_id a d of
        (d', a') \<Rightarrow> interleave s A B prompt_id (a', b) d')"
| "interleave (False # s) A B prompt_id (a, b) d =
     (case vote_step (fst B) (snd B) prompt_id b d of
        (d', b') \<Rightarrow> interleave s A B prompt_id (a, b') d')"



section \<open>Auxiliary facts\<close>

lemma execute_query_simps:
  "execute_query True q d = (d, None)"
  "execute_query False q d = (fst (q d), Some (snd (q d)))"
  by (simp_all add: execute_query_def split: prod.splits)

lemma id_prompt_set_statut [simp]: "id_prompt (set_statut s t k p) = id_prompt p"
  by (simp add: set_statut_def)

lemma filter_map_set_statut:
  "[p \<leftarrow> map (set_statut s t k) ps. id_prompt p = k] =
   map (set_statut s t k) [p \<leftarrow> ps. id_prompt p = k]"
  by (induction ps) simp_all

lemma find_case_filter:
  "(case filter P xs of [] \<Rightarrow> a | y # _ \<Rightarrow> f y) = (case find P xs of None \<Rightarrow> a | Some y \<Rightarrow> f y)"
  by (induction xs) simp_all

subsection \<open>The paths of vote_prompt\<close>

lemma vote_try_cases:
  "vote_try e uid pid d =
    (let v = \<lparr>id_vote = next_id_vote e, v_id_utilisateur = uid, v_id_prompt = pid\<rparr>;
         dv = d\<lparr>votes := votes d @ [v]\<rparr>;
         t = total_points_of (snd (points_query pid dv)) in
     if raises e 2 then (d, Err500)
     else if raises e 3 then (dv, Err500)
     else if t < 6 then (dv, Vote_recorded (next_id_vote e) t (6 - t))
     else if raises e 4 then (dv, Err500)
     else (case find (\<lambda>p. id_prompt p = pid) (prompts d) of
             None \<Rightarrow> (dv\<lparr>prompts := map (set_statut ''activer'' (now e) pid) (prompts d)\<rparr>, Err500)
           | Some p \<Rightarrow> (dv\<lparr>prompts := map (set_statut ''activer'' (now e) pid) (prompts d)\<rparr>,
                       Vote_activated (next_id_vote e) t (set_statut ''activer'' (now e) pid p))))"
  by (cases "raises e 2"; cases "raises e 3"; cases "raises e 4")
     (simp_all add: vote_try_def execute_query_simps vote_query_def points_query_def
        update_query_def update_statut_query_def Let_def filter_map_set_statut
        flip: find_case_filter split: list.splits)

lemma vote_prompt_cases:
  "vote_prompt e uid pid d =
    (if raises e 0 then (d, Uncaught)
     else case find (\<lambda>p. id_prompt p = pid) (prompts d) of
        None \<Rightarrow> (d, Err 404 ''Prompt non trouve'')
      | Some p \<Rightarrow>
         if statut p \<noteq> ''rappel'' then (d, Err 400 ''Ce prompt n'est pas en etat de Rappel'')
         else if id_createur p = uid
         then (d, Err 403 ''Vous ne pouvez pas voter pour votre propre prompt'')
         else if raises e 1 then (d, Uncaught)
         else if \<exists>v \<in> set (votes d). v_id_utilisateur v = uid \<and> v_id_prompt v = pid
         then (d, Err 409 ''Vous avez deja vote pour ce prompt'')
         else vote_try e uid pid d)"
  by (cases "raises e 0"; cases "raises e 1")
     (auto simp add: vote_prompt_def execute_query_simps check_query_def check_vote_query_def
        find_case_filter filter_empty_conv split: option.splits)

lemma vote_prompt_other:
  "vote_prompt e uid pid d = vote_try e uid pid d \<or>
   fst (vote_prompt e uid pid d) = d \<and>
   (snd (vote_prompt e uid pid d) = Uncaught \<or> (\<exists>c m. snd (vote_prompt e uid pid d) = Err c m \<and> c \<noteq> 200))"
  by (simp add: vote_prompt_cases split: option.splits)

lemma vote_prompt_success:
  assumes "http_status (snd (vote_prompt e uid pid d)) = 200"
  shows "vote_prompt e uid pid d = vote_try e uid pid d"
  using vote_prompt_other [of e uid pid d] assms by auto


lemma vote_try_success:
  assumes "http_status (snd (vote_try e uid pid d)) = 200"
  shows "\<not> raises e 2 \<and> \<not> raises e 3 \<and>
     (6 \<le> total_points_of (snd (points_query pid (d\<lparr>votes := votes d @
          [\<lparr>id_vote = next_id_vote e, v_id_utilisateur = uid, v_id_prompt = pid\<rparr>]\<rparr>))) \<longrightarrow>
        \<not> raises e 4 \<and> find (\<lambda>p. id_prompt p = pid) (prompts d) \<noteq> None)"
  using assms by (simp add: vote_try_cases Let_def split: option.splits if_splits)

lemma set_statut_hit:
  "id_prompt p = k \<Longrightarrow>
   statut (set_statut s t k p) = s \<and> date_derniere_modification (set_statut s t k p) = Some t"
  by (simp add: set_statut_def)

lemma set_statut_stamped:
  "\<forall>p \<in> set (map (set_statut s t k) ps). id_prompt p = k \<longrightarrow>
        statut p = s \<and> date_derniere_modification p = Some t"
proof
  fix q assume "q \<in> set (map (set_statut s t k) ps)"
  then obtain p where q: "q = set_statut s t k p" by auto
  show "id_prompt q = k \<longrightarrow> statut q = s \<and> date_derniere_modification q = Some t"
  proof
    assume "id_prompt q = k"
    with q have "id_prompt p = k" by simp
    from set_statut_hit [OF this] q show "statut q = s \<and> date_derniere_modification q = Some t"
      by simp
  qed
qed

lemma set_statut_others:
  "\<forall>p \<in> set ps. id_prompt p \<noteq> k \<longrightarrow> p \<in> set (map (set_statut s t k) ps)"
  by (induction ps) (simp_all add: set_statut_def)

lemma set_statut_nth:
  "i < length ps \<Longrightarrow>
   map (set_statut s t k) ps ! i = ps ! i \<or>
   statut (map (set_statut s t k) ps ! i) = s \<and>
   date_derniere_modification (map (set_statut s t k) ps ! i) = Some t"
  by (simp add: set_statut_def)

section \<open>The threshold of vote_prompt\<close>

text \<open>
  Claim C1. Whenever \<open>vote_prompt\<close> answers 200, the new vote has been appended; with
  \<open>t\<close> the total recomputed on the votes including the new one: if \<open>6 \<le> t\<close> every row
  of the prompt has status \<^verbatim>\<open>activer\<close> and the time of the call as
  \<^verbatim>\<open>date_derniere_modification\<close>, the other prompts are kept, and the answer carries
  the vote, \<open>t\<close> and the updated row; otherwise the prompts are unchanged and the answer
  carries \<open>points_needed = 6 - t\<close>, which is \<open>max 0 (6 - t)\<close> and positive.
\<close>

theorem vote_prompt_threshold:
  assumes "vote_prompt e uid pid d = (d', r)" and "http_status r = 200"
  shows "let dv = d\<lparr>votes := votes d @
                     [\<lparr>id_vote = next_id_vote e, v_id_utilisateur = uid, v_id_prompt = pid\<rparr>]\<rparr>;
             t = total_points_of (snd (points_query pid dv))
         in if 6 \<le> t
            then d' = dv\<lparr>prompts := map (set_statut ''activer'' (now e) pid) (prompts d)\<rparr> \<and>
                 (\<exists>u. r = Vote_activated (next_id_vote e) t u \<and> id_prompt u = pid \<and>
                      u \<in> set (prompts d')) \<and>
                 (\<forall>p \<in> set (prompts d'). id_prompt p = pid \<longrightarrow>
                    statut p = ''activer'' \<and> date_derniere_modification p = Some (now e)) \<and>
                 (\<forall>p \<in> set (prompts d). id_prompt p \<noteq> pid \<longrightarrow> p \<in> set (prompts d'))
            else prompts d' = prompts d \<and> d' = dv \<and>
                 r = Vote_recorded (next_id_vote e) t (6 - t) \<and>
                 6 - t = max 0 (6 - t) \<and> 0 < 6 - t"
proof -
  define dv where "dv = d\<lparr>votes := votes d @
                     [\<lparr>id_vote = next_id_vote e, v_id_utilisateur = uid, v_id_prompt = pid\<rparr>]\<rparr>"
  define t where "t = total_points_of (snd (points_query pid dv))"
  define ps where "ps = map (set_statut ''activer'' (now e) pid) (prompts d)"
  have pdv: "prompts dv = prompts d" by (simp add: dv_def)
  from assms have tr: "vote_try e uid pid d = (d', r)"
    using vote_prompt_success [of e uid pid d] by simp
  with assms(2) have ok: "\<not> raises e 2" "\<not> raises e 3"
      "6 \<le> t \<Longrightarrow> \<not> raises e 4 \<and> find (\<lambda>p. id_prompt p = pid) (prompts d) \<noteq> None"
    using vote_try_success [of e uid pid d] by (simp_all add: t_def dv_def)
  have low: "d' = dv \<and> r = Vote_recorded (next_id_vote e) t (6 - t)" if "t < 6"
  proof -
    have "vote_try e uid pid d = (dv, Vote_recorded (next_id_vote e) t (6 - t))"
      using ok(1,2) that by (simp add: vote_try_cases Let_def dv_def t_def)
    with tr show ?thesis by simp
  qed
  have high: "d' = dv\<lparr>prompts := ps\<rparr> \<and>
      (\<exists>u. r = Vote_activated (next_id_vote e) t u \<and> id_prompt u = pid \<and> u \<in> set ps)" if "6 \<le> t"
  proof -
    from ok(3) that obtain p where f: "find (\<lambda>p. id_prompt p = pid) (prompts d) = Some p"
      by auto
    with ok that have "vote_try e uid pid d =
        (dv\<lparr>prompts := ps\<rparr>,
         Vote_activated (next_id_vote e) t (set_statut ''activer'' (now e) pid p))"
      by (simp add: vote_try_cases Let_def dv_def t_def ps_def)
    with tr have
      d': "d' = dv\<lparr>prompts := ps\<rparr>" and
      r: "r = Vote_activated (next_id_vote e) t (set_statut ''activer'' (now e) pid p)"
      by simp_all
    from f have "p \<in> set (prompts d)" "id_prompt p = pid"
      by (auto simp: find_Some_iff)
    then have "set_statut ''activer'' (now e) pid p \<in> set ps"
      by (simp add: ps_def)
    with d' r \<open>id_prompt p = pid\<close> show ?thesis by simp
  qed
  have stamped: "\<forall>p \<in> set ps. id_prompt p = pid \<longrightarrow>
        statut p = ''activer'' \<and> date_derniere_modification p = Some (now e)"
    unfolding ps_def by (rule set_statut_stamped)
  have others: "\<forall>p \<in> set (prompts d). id_prompt p \<noteq> pid \<longrightarrow> p \<in> set ps"
    unfolding ps_def by (rule set_statut_others)
  have "if 6 \<le> t
        then d' = dv\<lparr>prompts := ps\<rparr> \<and>
             (\<exists>u. r = Vote_activated (next_id_vote e) t u \<and> id_prompt u = pid \<and>
                  u \<in> set (prompts d')) \<and>
             (\<forall>p \<in> set (prompts d'). id_prompt p = pid \<longrightarrow>
                statut p = ''activer'' \<and> date_derniere_modification p = Some (now e)) \<and>
             (\<forall>p \<in> set (prompts d). id_prompt p \<noteq> pid \<longrightarrow> p \<in> set (prompts d'))
        else prompts d' = prompts d \<and> d' = dv \<and>
             r = Vote_recorded (next_id_vote e) t (6 - t) \<and>
             6 - t = max 0 (6 - t) \<and> 0 < 6 - t"
  proof (cases "6 \<le> t")
    case True
    from high [OF True] have d': "d' = dv\<lparr>prompts := ps\<rparr>" and
      u: "\<exists>u. r = Vote_activated (next_id_vote e) t u \<and> id_prompt u = pid \<and> u \<in> set ps"
      by blast+
    from d' have "prompts d' = ps" by simp
    with True d' u stamped others show ?thesis by simp
  next
    case False
    then have "t < 6" by simp
    from low [OF this] pdv False show ?thesis by simp
  qed
  then show ?thesis
    unfolding Let_def dv_def t_def ps_def .
qed

theorem vote_prompt_threshold_witness:
  "http_status (snd (vote_prompt env_ok 4 1 db_recall)) = 200 \<and>
   (let dv = db_recall\<lparr>votes := votes db_recall @
                [\<lparr>id_vote = next_id_vote env_ok, v_id_utilisateur = 4, v_id_prompt = 1\<rparr>]\<rparr>;
        t = total_points_of (snd (points_query 1 dv))
    in if 6 \<le> t
       then fst (vote_prompt env_ok 4 1 db_recall) =
              dv\<lparr>prompts := map (set_statut ''activer'' (now env_ok) 1) (prompts db_recall)\<rparr> \<and>
            (\<exists>u. snd (vote_prompt env_ok 4 1 db_recall) = Vote_activated (next_id_vote env_ok) t u \<and>
                 id_prompt u = 1 \<and> u \<in> set (prompts (fst (vote_prompt env_ok 4 1 db_recall)))) \<and>
            (\<forall>p \<in> set (prompts (fst (vote_prompt env_ok 4 1 db_recall))). id_prompt p = 1 \<longrightarrow>
               statut p = ''activer'' \<and> date_derniere_modification p = Some (now env_ok)) \<and>
            (\<forall>p \<in> set (prompts db_recall). id_prompt p \<noteq> 1 \<longrightarrow>
               p \<in> set (prompts (fst (vote_prompt env_ok 4 1 db_recall))))
       else prompts (fst (vote_prompt env_ok 4 1 db_recall)) = prompts db_recall \<and>
            fst (vote_prompt env_ok 4 1 db_recall) = dv \<and>
            snd (vote_prompt env_ok 4 1 db_recall) =
              Vote_recorded (next_id_vote env_ok) t (6 - t) \<and>
            6 - t = max 0 (6 - t) \<and> 0 < 6 - t)"
proof -
  have h1: "vote_prompt env_ok 4 1 db_recall =
      (fst (vote_prompt env_ok 4 1 db_recall), snd (vote_prompt env_ok 4 1 db_recall))"
    by simp
  have h2: "http_status (snd (vote_prompt env_ok 4 1 db_recall)) = 200"
    by code_simp
  show ?thesis
    by (rule conjI [OF h2 vote_prompt_threshold [OF h1 h2]])
qed

lemma vote_try_votes:
  "votes (fst (vote_try e uid pid d)) = votes d \<or>
   votes (fst (vote_try e uid pid d)) =
     votes d @ [\<lparr>id_vote = next_id_vote e, v_id_utilisateur = uid, v_id_prompt = pid\<rparr>]"
  by (simp add: vote_try_cases Let_def split: option.splits)

section \<open>The preconditions of vote_prompt\<close>

text \<open>
  Claim C3. When the check query returns, \<open>vote_prompt\<close> answers 404 if no prompt has
  the identifier, else 400 if the status of the prompt is not \<^verbatim>\<open>rappel\<close>, else 403 if
  the caller created the prompt, else (when the second query returns) 409 if the caller
  has a vote on the prompt; each of the four leaves the database as it was. The votes
  change only when the prompt exists, is in \<^verbatim>\<open>rappel\<close>, was created by someone else
  and has no vote of the caller, and then exactly one vote is appended.
\<close>

theorem vote_prompt_preconditions:
  "(\<not> raises e 0 \<and> find (\<lambda>p. id_prompt p = pid) (prompts d) = None \<longrightarrow>
      vote_prompt e uid pid d = (d, Err 404 ''Prompt non trouve'')) \<and>
   (\<forall>p. \<not> raises e 0 \<and> find (\<lambda>p. id_prompt p = pid) (prompts d) = Some p \<and>
        statut p \<noteq> ''rappel'' \<longrightarrow>
      vote_prompt e uid pid d = (d, Err 400 ''Ce prompt n'est pas en etat de Rappel'')) \<and>
   (\<forall>p. \<not> raises e 0 \<and> find (\<lambda>p. id_prompt p = pid) (prompts d) = Some p \<and>
        statut p = ''rappel'' \<and> id_createur p = uid \<longrightarrow>
      vote_prompt e uid pid d =
        (d, Err 403 ''Vous ne pouvez pas voter pour votre propre prompt'')) \<and>
   (\<forall>p. \<not> raises e 0 \<and> find (\<lambda>p. id_prompt p = pid) (prompts d) = Some p \<and>
        statut p = ''rappel'' \<and> id_createur p \<noteq> uid \<and> \<not> raises e 1 \<and>
        (\<exists>v \<in> set (votes d). v_id_utilisateur v = uid \<and> v_id_prompt v = pid) \<longrightarrow>
      vote_prompt e uid pid d = (d, Err 409 ''Vous avez deja vote pour ce prompt'')) \<and>
   (votes (fst (vote_prompt e uid pid d)) \<noteq> votes d \<longrightarrow>
      (\<exists>p. find (\<lambda>p. id_prompt p = pid) (prompts d) = Some p \<and>
           statut p = ''rappel'' \<and> id_createur p \<noteq> uid) \<and>
      \<not> (\<exists>v \<in> set (votes d). v_id_utilisateur v = uid \<and> v_id_prompt v = pid) \<and>
      votes (fst (vote_prompt e uid pid d)) =
        votes d @ [\<lparr>id_vote = next_id_vote e, v_id_utilisateur = uid, v_id_prompt = pid\<rparr>])"
proof (intro conjI allI impI)
  assume "\<not> raises e 0 \<and> find (\<lambda>p. id_prompt p = pid) (prompts d) = None"
  then show "vote_prompt e uid pid d = (d, Err 404 ''Prompt non trouve'')"
    by (simp add: vote_prompt_cases)
next
  fix p
  assume "\<not> raises e 0 \<and> find (\<lambda>p. id_prompt p = pid) (prompts d) = Some p \<and>
        statut p \<noteq> ''rappel''"
  then show "vote_prompt e uid pid d = (d, Err 400 ''Ce prompt n'est pas en etat de Rappel'')"
    by (simp add: vote_prompt_cases)
next
  fix p
  assume "\<not> raises e 0 \<and> find (\<lambda>p. id_prompt p = pid) (prompts d) = Some p \<and>
        statut p = ''rappel'' \<and> id_createur p = uid"
  then show "vote_prompt e uid pid d =
        (d, Err 403 ''Vous ne pouvez pas voter pour votre propre prompt'')"
    by (simp add: vote_prompt_cases)
next
  fix p
  assume "\<not> raises e 0 \<and> find (\<lambda>p. id_prompt p = pid) (prompts d) = Some p \<and>
        statut p = ''rappel'' \<and> id_createur p \<noteq> uid \<and> \<not> raises e 1 \<and>
        (\<exists>v \<in> set (votes d). v_id_utilisateur v = uid \<and> v_id_prompt v = pid)"
  then show "vote_prompt e uid pid d = (d, Err 409 ''Vous avez deja vote pour ce prompt'')"
    by (simp add: vote_prompt_cases)
next
  assume ch: "votes (fst (vote_prompt e uid pid d)) \<noteq> votes d"
  then have eq: "vote_prompt e uid pid d = vote_try e uid pid d"
    using vote_prompt_other [of e uid pid d] by auto
  with ch vote_try_votes [of e uid pid d]
  show "votes (fst (vote_prompt e uid pid d)) =
        votes d @ [\<lparr>id_vote = next_id_vote e, v_id_utilisateur = uid, v_id_prompt = pid\<rparr>]"
    by simp
  from ch show "\<exists>p. find (\<lambda>p. id_prompt p = pid) (prompts d) = Some p \<and>
           statut p = ''rappel'' \<and> id_createur p \<noteq> uid"
    by (cases "find (\<lambda>p. id_prompt p = pid) (prompts d)")
       (simp_all add: vote_prompt_cases split: if_splits)
  from ch show "\<not> (\<exists>v \<in> set (votes d). v_id_utilisateur v = uid \<and> v_id_prompt v = pid)"
    by (cases "find (\<lambda>p. id_prompt p = pid) (prompts d)")
       (auto simp add: vote_prompt_cases split: if_splits)
qed


theorem vote_prompt_preconditions_witness:
  "vote_prompt env_ok 4 9 db_recall = (db_recall, Err 404 ''Prompt non trouve'') \<and>
   vote_prompt env_ok 4 2 db_recall =
     (db_recall, Err 400 ''Ce prompt n'est pas en etat de Rappel'') \<and>
   vote_prompt env_ok 1 1 db_recall =
     (db_recall, Err 403 ''Vous ne pouvez pas voter pour votre propre prompt'') \<and>
   vote_prompt env_ok 2 1 db_recall =
     (db_recall, Err 409 ''Vous avez deja vote pour ce prompt'')"
proof -
  have r0: "\<not> raises env_ok 0" "\<not> raises env_ok 1"
    by (simp_all add: env_ok_def)
  have f9: "find (\<lambda>p. id_prompt p = 9) (prompts db_recall) = None"
    by (simp add: db_recall_def)
  have f2: "find (\<lambda>p. id_prompt p = 2) (prompts db_recall) = Some (prompts db_recall ! 1)"
    by (simp add: db_recall_def)
  have s2: "statut (prompts db_recall ! 1) \<noteq> ''rappel''"
    by (simp add: db_recall_def)
  have f1: "find (\<lambda>p. id_prompt p = 1) (prompts db_recall) = Some (prompts db_recall ! 0)"
    by (simp add: db_recall_def)
  have s1: "statut (prompts db_recall ! 0) = ''rappel''" "id_createur (prompts db_recall ! 0) = 1"
    "id_createur (prompts db_recall ! 0) \<noteq> 2"
    by (simp_all add: db_recall_def)
  have v2: "\<exists>v \<in> set (votes db_recall). v_id_utilisateur v = 2 \<and> v_id_prompt v = 1"
    by (simp add: db_recall_def)
  from vote_prompt_preconditions [of env_ok 9 db_recall 4] r0 f9
  have a: "vote_prompt env_ok 4 9 db_recall = (db_recall, Err 404 ''Prompt non trouve'')"
    by blast
  from vote_prompt_preconditions [of env_ok 2 db_recall 4] r0 f2 s2
  have b: "vote_prompt env_ok 4 2 db_recall =
     (db_recall, Err 400 ''Ce prompt n'est pas en etat de Rappel'')"
    by blast
  from vote_prompt_preconditions [of env_ok 1 db_recall 1] r0 f1 s1
  have c: "vote_prompt env_ok 1 1 db_recall =
     (db_recall, Err 403 ''Vous ne pouvez pas voter pour votre propre prompt'')"
    by blast
  from vote_prompt_preconditions [of env_ok 1 db_recall 2] r0 f1 s1 v2
  have d: "vote_prompt env_ok 2 1 db_recall =
     (db_recall, Err 409 ''Vous avez deja vote pour ce prompt'')"
    by blast
  from a b c d show ?thesis by blast
qed

section \<open>Failing writes in vote_prompt\<close>

text \<open>
  The insertion commits before the points query and the update run: at the input below
  the update raises, the answer is 500 and the vote stays recorded with the prompt
  still in \<^verbatim>\<open>rappel\<close>.
\<close>

theorem vote_prompt_partial_counterexample:
  "vote_prompt env_update_fails 4 1 db_recall =
     (db_recall\<lparr>votes := votes db_recall @
         [\<lparr>id_vote = 7, v_id_utilisateur = 4, v_id_prompt = 1\<rparr>]\<rparr>, Err500) \<and>
   fst (vote_prompt env_update_fails 4 1 db_recall) \<noteq> db_recall"
  by code_simp

text \<open>
  Claim C6, amended. For a call that passes the four checks: when the insertion raises
  the answer is 500 and the database is as before; when the points query raises, or the
  total is at least 6 and the update raises, the answer is 500 and the database is the
  prior one with the new vote appended; and whatever happens, the table of prompts
  keeps its length and every row of it is either the row it was or a row whose status
  is \<^verbatim>\<open>activer\<close> and whose \<^verbatim>\<open>date_derniere_modification\<close> is the time of the
  call: no status is written without its timestamp.
\<close>

theorem vote_prompt_failures:
  assumes "\<not> raises e 0" and "find (\<lambda>p. id_prompt p = pid) (prompts d) = Some p"
    and "statut p = ''rappel''" and "id_createur p \<noteq> uid" and "\<not> raises e 1"
    and "\<not> (\<exists>v \<in> set (votes d). v_id_utilisateur v = uid \<and> v_id_prompt v = pid)"
  shows "let dv = d\<lparr>votes := votes d @
                     [\<lparr>id_vote = next_id_vote e, v_id_utilisateur = uid, v_id_prompt = pid\<rparr>]\<rparr>;
             t = total_points_of (snd (points_query pid dv));
             d' = fst (vote_prompt e uid pid d)
         in (raises e 2 \<longrightarrow> vote_prompt e uid pid d = (d, Err500)) \<and>
            (\<not> raises e 2 \<and> raises e 3 \<longrightarrow> vote_prompt e uid pid d = (dv, Err500)) \<and>
            (\<not> raises e 2 \<and> \<not> raises e 3 \<and> 6 \<le> t \<and> raises e 4 \<longrightarrow>
               vote_prompt e uid pid d = (dv, Err500)) \<and>
            (prompts d' = prompts d \<or>
             prompts d' = map (set_statut ''activer'' (now e) pid) (prompts d)) \<and>
            length (prompts d') = length (prompts d) \<and>
            (\<forall>i < length (prompts d).
               prompts d' ! i = prompts d ! i \<or>
               statut (prompts d' ! i) = ''activer'' \<and>
               date_derniere_modification (prompts d' ! i) = Some (now e)) \<and>
            (prompts d' = prompts d \<or>
             (\<forall>q \<in> set (prompts d'). id_prompt q = pid \<longrightarrow>
                statut q = ''activer'' \<and> date_derniere_modification q = Some (now e)))"
proof -
  define d' where "d' = fst (vote_prompt e uid pid d)"
  from assms have eq: "vote_prompt e uid pid d = vote_try e uid pid d"
    by (auto simp add: vote_prompt_cases)
  have paths: "let dv = d\<lparr>votes := votes d @
                     [\<lparr>id_vote = next_id_vote e, v_id_utilisateur = uid, v_id_prompt = pid\<rparr>]\<rparr>;
             t = total_points_of (snd (points_query pid dv))
         in (raises e 2 \<longrightarrow> vote_prompt e uid pid d = (d, Err500)) \<and>
            (\<not> raises e 2 \<and> raises e 3 \<longrightarrow> vote_prompt e uid pid d = (dv, Err500)) \<and>
            (\<not> raises e 2 \<and> \<not> raises e 3 \<and> 6 \<le> t \<and> raises e 4 \<longrightarrow>
               vote_prompt e uid pid d = (dv, Err500))"
    unfolding eq by (simp add: vote_try_cases Let_def assms(2))
  have alt: "prompts d' = prompts d \<or>
             prompts d' = map (set_statut ''activer'' (now e) pid) (prompts d)"
    unfolding d'_def eq by (simp add: vote_try_cases Let_def assms(2))
  then have len: "length (prompts d') = length (prompts d)"
    by auto
  have rows: "\<forall>i < length (prompts d).
               prompts d' ! i = prompts d ! i \<or>
               statut (prompts d' ! i) = ''activer'' \<and>
               date_derniere_modification (prompts d' ! i) = Some (now e)"
  proof (intro allI impI)
    fix i assume i: "i < length (prompts d)"
    from alt show "prompts d' ! i = prompts d ! i \<or>
               statut (prompts d' ! i) = ''activer'' \<and>
               date_derniere_modification (prompts d' ! i) = Some (now e)"
    proof
      assume "prompts d' = prompts d"
      then show ?thesis by simp
    next
      assume m: "prompts d' = map (set_statut ''activer'' (now e) pid) (prompts d)"
      from set_statut_nth [OF i, of "''activer''" "now e" pid] show ?thesis
        unfolding m .
    qed
  qed
  have st: "prompts d' = prompts d \<or>
             (\<forall>q \<in> set (prompts d'). id_prompt q = pid \<longrightarrow>
                statut q = ''activer'' \<and> date_derniere_modification q = Some (now e))"
  proof -
    have "\<forall>q \<in> set (prompts d'). id_prompt q = pid \<longrightarrow>
                statut q = ''activer'' \<and> date_derniere_modification q = Some (now e)"
      if m: "prompts d' = map (set_statut ''activer'' (now e) pid) (prompts d)"
      unfolding m by (rule set_statut_stamped)
    with alt show ?thesis by blast
  qed
  from paths alt len rows st show ?thesis
    unfolding Let_def d'_def by blast
qed

theorem vote_prompt_failures_witness:
  "let dv = db_recall\<lparr>votes := votes db_recall @
                [\<lparr>id_vote = next_id_vote env_update_fails, v_id_utilisateur = 4, v_id_prompt = 1\<rparr>]\<rparr>;
       t = total_points_of (snd (points_query 1 dv));
       d' = fst (vote_prompt env_update_fails 4 1 db_recall)
   in (raises env_update_fails 2 \<longrightarrow>
         vote_prompt env_update_fails 4 1 db_recall = (db_recall, Err500)) \<and>
      (\<not> raises env_update_fails 2 \<and> raises env_update_fails 3 \<longrightarrow>
         vote_prompt env_update_fails 4 1 db_recall = (dv, Err500)) \<and>
      (\<not> raises env_update_fails 2 \<and> \<not> raises env_update_fails 3 \<and> 6 \<le> t \<and>
       raises env_update_fails 4 \<longrightarrow>
         vote_prompt env_update_fails 4 1 db_recall = (dv, Err500)) \<and>
      (prompts d' = prompts db_recall \<or>
       prompts d' = map (set_statut ''activer'' (now env_update_fails) 1) (prompts db_recall)) \<and>
      length (prompts d') = length (prompts db_recall) \<and>
      (\<forall>i < length (prompts db_recall).
         prompts d' ! i = prompts db_recall ! i \<or>
         statut (prompts d' ! i) = ''activer'' \<and>
         date_derniere_modification (prompts d' ! i) = Some (now env_update_fails)) \<and>
      (prompts d' = prompts db_recall \<or>
       (\<forall>q \<in> set (prompts d'). id_prompt q = 1 \<longrightarrow>
          statut q = ''activer'' \<and>
          date_derniere_modification q = Some (now env_update_fails)))"
proof -
  have h1: "\<not> raises env_update_fails 0" and h5: "\<not> raises env_update_fails 1"
    by (simp_all add: env_update_fails_def)
  have h2: "find (\<lambda>p. id_prompt p = 1) (prompts db_recall) = Some (prompts db_recall ! 0)"
    by (simp add: db_recall_def)
  have h3: "statut (prompts db_recall ! 0) = ''rappel''"
    and h4: "id_createur (prompts db_recall ! 0) \<noteq> 4"
    by (simp_all add: db_recall_def)
  have h6: "\<not> (\<exists>v \<in> set (votes db_recall). v_id_utilisateur v = 4 \<and> v_id_prompt v = 1)"
    by (simp add: db_recall_def)
  show ?thesis
    by (rule vote_prompt_failures [OF h1 h2 h3 h4 h5 h6])
qed

section \<open>The policy of update_prompt_status\<close>

lemma find_None_filter: "find P xs = None \<Longrightarrow> filter P xs = []"
  by (induction xs) (simp_all split: if_splits)

lemma find_Some_filter: "find P xs = Some y \<Longrightarrow> \<exists>ys. filter P xs = y # ys"
  by (induction xs) (simp_all split: if_splits)

lemma status_try_cases:
  "status_try e s pid d =
    (if raises e 1 then (d, Err500)
     else case find (\<lambda>p. id_prompt p = pid) (prompts d) of
            None \<Rightarrow> (d\<lparr>prompts := map (set_statut s (now e) pid) (prompts d)\<rparr>, Err500)
          | Some p \<Rightarrow> (d\<lparr>prompts := map (set_statut s (now e) pid) (prompts d)\<rparr>,
                      Status_updated (set_statut s (now e) pid p)))"
  by (cases "raises e 1")
     (simp_all add: status_try_def execute_query_simps update_statut_query_def Let_def
        filter_map_set_statut flip: find_case_filter split: list.splits)

lemma update_prompt_status_cases:
  "update_prompt_status e j (Json (Some (Str s))) pid d =
    (if s = [] then (d, Err 400 ''Statut du prompt requis'')
     else if s \<notin> set statuts_valides then (d, Err 400 ''Statut invalide'')
     else if raises e 0 then (d, Uncaught)
     else case find (\<lambda>p. id_prompt p = pid) (prompts d) of
        None \<Rightarrow> (d, Err 404 ''Prompt non trouve'')
      | Some p \<Rightarrow>
         if role j = ''admin'' then status_try e s pid d
         else if id_createur p = identity j then
           (if s \<noteq> ''a_supprimer''
            then (d, Err 403 ''Vous ne pouvez que demander la suppression de votre prompt'')
            else status_try e s pid d)
         else (d, Err 403 ''Acces non autorise''))"
  by (cases "raises e 0")
     (simp_all add: update_prompt_status_def execute_query_simps check_query_def Let_def
        flip: find_case_filter split: list.splits)

text \<open>
  Claim C4. For a prompt that exists and a target status of \<^verbatim>\<open>statuts_valides\<close>
  (the check query returning): an admin's request is applied, whatever the current and
  the target status; a creator who is not admin has the request applied when the
  target is \<^verbatim>\<open>a_supprimer\<close> and gets 403 for any other target; anybody else gets 403;
  both refusals leave the database as it was. Applied means: when the \<^verbatim>\<open>UPDATE\<close>
  does not raise, the answer carries the prompt with the target status and the time of
  the call as \<^verbatim>\<open>date_derniere_modification\<close>; in the table every row of the
  prompt is rewritten so, every other row and every other table is as it was.
\<close>

theorem update_prompt_status_policy:
  assumes "s \<in> set statuts_valides"
    and "find (\<lambda>p. id_prompt p = pid) (prompts d) = Some p"
    and "\<not> raises e 0"
  shows "(role j = ''admin'' \<and> \<not> raises e 1 \<longrightarrow>
            update_prompt_status e j (Json (Some (Str s))) pid d =
              (d\<lparr>prompts := map (set_statut s (now e) pid) (prompts d)\<rparr>,
               Status_updated (set_statut s (now e) pid p))) \<and>
         (role j \<noteq> ''admin'' \<and> id_createur p = identity j \<and> s = ''a_supprimer'' \<and>
          \<not> raises e 1 \<longrightarrow>
            update_prompt_status e j (Json (Some (Str s))) pid d =
              (d\<lparr>prompts := map (set_statut s (now e) pid) (prompts d)\<rparr>,
               Status_updated (set_statut s (now e) pid p))) \<and>
         (role j \<noteq> ''admin'' \<and> id_createur p = identity j \<and> s \<noteq> ''a_supprimer'' \<longrightarrow>
            update_prompt_status e j (Json (Some (Str s))) pid d =
              (d, Err 403 ''Vous ne pouvez que demander la suppression de votre prompt'')) \<and>
         (role j \<noteq> ''admin'' \<and> id_createur p \<noteq> identity j \<longrightarrow>
            update_prompt_status e j (Json (Some (Str s))) pid d = (d, Err 403 ''Acces non autorise'')) \<and>
         ((role j = ''admin'' \<or> id_createur p = identity j \<and> s = ''a_supprimer'') \<and>
          \<not> raises e 1 \<longrightarrow>
            (let d' = fst (update_prompt_status e j (Json (Some (Str s))) pid d)
             in snd (update_prompt_status e j (Json (Some (Str s))) pid d) =
                  Status_updated (p\<lparr>statut := s, date_derniere_modification := Some (now e)\<rparr>) \<and>
                length (prompts d') = length (prompts d) \<and>
                (\<forall>i < length (prompts d).
                   prompts d' ! i =
                     (if id_prompt (prompts d ! i) = pid
                      then (prompts d ! i)\<lparr>statut := s,
                             date_derniere_modification := Some (now e)\<rparr>
                      else prompts d ! i)) \<and>
                (\<forall>q \<in> set (prompts d'). id_prompt q = pid \<longrightarrow>
                   statut q = s \<and> date_derniere_modification q = Some (now e)) \<and>
                p\<lparr>statut := s, date_derniere_modification := Some (now e)\<rparr> \<in> set (prompts d') \<and>
                utilisateurs d' = utilisateurs d \<and> votes d' = votes d \<and>
                note_rows d' = note_rows d))"
proof -
  from assms(1) have ne: "s \<noteq> []" by (auto simp: statuts_valides_def)
  from assms(2) have p: "p \<in> set (prompts d)" "id_prompt p = pid"
    by (auto simp: find_Some_iff)
  have first: "(role j = ''admin'' \<and> \<not> raises e 1 \<longrightarrow>
            update_prompt_status e j (Json (Some (Str s))) pid d =
              (d\<lparr>prompts := map (set_statut s (now e) pid) (prompts d)\<rparr>,
               Status_updated (set_statut s (now e) pid p))) \<and>
         (role j \<noteq> ''admin'' \<and> id_createur p = identity j \<and> s = ''a_supprimer'' \<and>
          \<not> raises e 1 \<longrightarrow>
            update_prompt_status e j (Json (Some (Str s))) pid d =
              (d\<lparr>prompts := map (set_statut s (now e) pid) (prompts d)\<rparr>,
               Status_updated (set_statut s (now e) pid p))) \<and>
         (role j \<noteq> ''admin'' \<and> id_createur p = identity j \<and> s \<noteq> ''a_supprimer'' \<longrightarrow>
            update_prompt_status e j (Json (Some (Str s))) pid d =
              (d, Err 403 ''Vous ne pouvez que demander la suppression de votre prompt'')) \<and>
         (role j \<noteq> ''admin'' \<and> id_createur p \<noteq> identity j \<longrightarrow>
            update_prompt_status e j (Json (Some (Str s))) pid d = (d, Err 403 ''Acces non autorise''))"
    using assms ne by (auto simp add: update_prompt_status_cases status_try_cases)
  have applied: "let d' = fst (update_prompt_status e j (Json (Some (Str s))) pid d)
             in snd (update_prompt_status e j (Json (Some (Str s))) pid d) =
                  Status_updated (p\<lparr>statut := s, date_derniere_modification := Some (now e)\<rparr>) \<and>
                length (prompts d') = length (prompts d) \<and>
                (\<forall>i < length (prompts d).
                   prompts d' ! i =
                     (if id_prompt (prompts d ! i) = pid
                      then (prompts d ! i)\<lparr>statut := s,
                             date_derniere_modification := Some (now e)\<rparr>
                      else prompts d ! i)) \<and>
                (\<forall>q \<in> set (prompts d'). id_prompt q = pid \<longrightarrow>
                   statut q = s \<and> date_derniere_modification q = Some (now e)) \<and>
                p\<lparr>statut := s, date_derniere_modification := Some (now e)\<rparr> \<in> set (prompts d') \<and>
                utilisateurs d' = utilisateurs d \<and> votes d' = votes d \<and>
                note_rows d' = note_rows d"
    if ok: "(role j = ''admin'' \<or> id_createur p = identity j \<and> s = ''a_supprimer'') \<and>
          \<not> raises e 1"
  proof -
    define ps where "ps = map (set_statut s (now e) pid) (prompts d)"
    define q0 where "q0 = p\<lparr>statut := s, date_derniere_modification := Some (now e)\<rparr>"
    from ok first have "update_prompt_status e j (Json (Some (Str s))) pid d =
              (d\<lparr>prompts := map (set_statut s (now e) pid) (prompts d)\<rparr>,
               Status_updated (set_statut s (now e) pid p))"
      by blast
    moreover have r: "set_statut s (now e) pid p = q0"
      using p(2) by (simp add: set_statut_def q0_def)
    ultimately have eq: "update_prompt_status e j (Json (Some (Str s))) pid d =
              (d\<lparr>prompts := ps\<rparr>, Status_updated q0)"
      by (simp add: ps_def)
    have c1: "snd (update_prompt_status e j (Json (Some (Str s))) pid d) = Status_updated q0"
      by (simp add: eq)
    have f: "prompts (fst (update_prompt_status e j (Json (Some (Str s))) pid d)) = ps"
      "utilisateurs (fst (update_prompt_status e j (Json (Some (Str s))) pid d)) = utilisateurs d"
      "votes (fst (update_prompt_status e j (Json (Some (Str s))) pid d)) = votes d"
      "note_rows (fst (update_prompt_status e j (Json (Some (Str s))) pid d)) = note_rows d"
      by (simp_all add: eq)
    have c2: "length ps = length (prompts d)"
      by (simp add: ps_def)
    have c3: "\<forall>i < length (prompts d).
                   ps ! i =
                     (if id_prompt (prompts d ! i) = pid
                      then (prompts d ! i)\<lparr>statut := s,
                             date_derniere_modification := Some (now e)\<rparr>
                      else prompts d ! i)"
      by (simp add: ps_def set_statut_def)
    have c4: "\<forall>q \<in> set ps. id_prompt q = pid \<longrightarrow>
                   statut q = s \<and> date_derniere_modification q = Some (now e)"
      unfolding ps_def by (rule set_statut_stamped)
    have "set_statut s (now e) pid p \<in> set ps"
      using p(1) by (simp add: ps_def)
    then have c5: "q0 \<in> set ps"
      by (simp only: r)
    from c1 c2 c3 c4 c5 f show ?thesis
      unfolding Let_def q0_def by (simp only: simp_thms)
  qed
  from first applied show ?thesis by blast
qed

theorem update_prompt_status_policy_witness:
  "update_prompt_status env_ok jwt_admin (Json (Some (Str ''activer''))) 1 db_recall =
     (db_recall\<lparr>prompts := map (set_statut ''activer'' (now env_ok) 1) (prompts db_recall)\<rparr>,
      Status_updated (set_statut ''activer'' (now env_ok) 1 (prompts db_recall ! 0))) \<and>
   update_prompt_status env_ok jwt_creator (Json (Some (Str ''a_supprimer''))) 1 db_recall =
     (db_recall\<lparr>prompts := map (set_statut ''a_supprimer'' (now env_ok) 1) (prompts db_recall)\<rparr>,
      Status_updated (set_statut ''a_supprimer'' (now env_ok) 1 (prompts db_recall ! 0))) \<and>
   update_prompt_status env_ok jwt_creator (Json (Some (Str ''activer''))) 1 db_recall =
     (db_recall, Err 403 ''Vous ne pouvez que demander la suppression de votre prompt'') \<and>
   update_prompt_status env_ok jwt_other (Json (Some (Str ''a_supprimer''))) 1 db_recall =
     (db_recall, Err 403 ''Acces non autorise'')"
proof -
  have v: "''activer'' \<in> set statuts_valides" "''a_supprimer'' \<in> set statuts_valides"
    by (simp_all add: statuts_valides_def)
  have f: "find (\<lambda>p. id_prompt p = 1) (prompts db_recall) = Some (prompts db_recall ! 0)"
    by (simp add: db_recall_def)
  have r: "\<not> raises env_ok 0" "\<not> raises env_ok 1"
    by (simp_all add: env_ok_def)
  have c: "id_createur (prompts db_recall ! 0) = identity jwt_creator"
    "id_createur (prompts db_recall ! 0) \<noteq> identity jwt_other"
    by (simp_all add: db_recall_def jwt_creator_def jwt_other_def)
  have j: "role jwt_admin = ''admin''" "role jwt_creator \<noteq> ''admin''" "role jwt_other \<noteq> ''admin''"
    by (simp_all add: jwt_admin_def jwt_creator_def jwt_other_def)
  have n: "''activer'' \<noteq> ''a_supprimer''"
    by simp
  from update_prompt_status_policy [OF v(1) f r(1), of jwt_admin] j(1) r(2)
  have a1: "update_prompt_status env_ok jwt_admin (Json (Some (Str ''activer''))) 1 db_recall =
     (db_recall\<lparr>prompts := map (set_statut ''activer'' (now env_ok) 1) (prompts db_recall)\<rparr>,
      Status_updated (set_statut ''activer'' (now env_ok) 1 (prompts db_recall ! 0)))"
    by blast
  from update_prompt_status_policy [OF v(2) f r(1), of jwt_creator] j(2) c(1) r(2)
  have a2: "update_prompt_status env_ok jwt_creator (Json (Some (Str ''a_supprimer''))) 1 db_recall =
     (db_recall\<lparr>prompts := map (set_statut ''a_supprimer'' (now env_ok) 1) (prompts db_recall)\<rparr>,
      Status_updated (set_statut ''a_supprimer'' (now env_ok) 1 (prompts db_recall ! 0)))"
    by blast
  from update_prompt_status_policy [OF v(1) f r(1), of jwt_creator] j(2) c(1) n
  have a3: "update_prompt_status env_ok jwt_creator (Json (Some (Str ''activer''))) 1 db_recall =
     (db_recall, Err 403 ''Vous ne pouvez que demander la suppression de votre prompt'')"
    by blast
  from update_prompt_status_policy [OF v(2) f r(1), of jwt_other] j(3) c(2)
  have a4: "update_prompt_status env_ok jwt_other (Json (Some (Str ''a_supprimer''))) 1 db_recall =
     (db_recall, Err 403 ''Acces non autorise'')"
    by blast
  from a1 a2 a3 a4 show ?thesis by blast
qed

section \<open>activate_prompt_by_vote on a prompt that is already active\<close>

lemma activate_prompt_by_vote_cases:
  "activate_prompt_by_vote e j pid d =
    (if role j \<noteq> ''admin'' then (d, Err 403 ''Acces non autorise'')
     else if raises e 0 then (d, Uncaught)
     else case find (\<lambda>p. id_prompt p = pid) (prompts d) of
        None \<Rightarrow> (d, Err 400 ''Ce prompt ne peut pas etre active par vote'')
      | Some p \<Rightarrow>
         if statut p \<noteq> ''rappel'' then (d, Err 400 ''Ce prompt ne peut pas etre active par vote'')
         else if raises e 1 then (d, Uncaught)
         else if total_points_of (snd (points_query pid d)) < 6
         then (d, Points_missing (total_points_of (snd (points_query pid d))))
         else if raises e 2 then (d, Err500)
         else (d\<lparr>prompts := map (set_statut ''activer'' (now e) pid) (prompts d)\<rparr>,
               Activated_by_vote (set_statut ''activer'' (now e) pid p)
                 (total_points_of (snd (points_query pid d)))))"
proof (cases "find (\<lambda>p. id_prompt p = pid) (prompts d)")
  case None
  then have "[p \<leftarrow> prompts d. id_prompt p = pid] = []"
    by (rule find_None_filter)
  with None show ?thesis
    by (simp add: activate_prompt_by_vote_def execute_query_simps check_query_def)
next
  case (Some p)
  from find_Some_filter [OF this]
  obtain ys where f: "[p \<leftarrow> prompts d. id_prompt p = pid] = p # ys" ..
  have u: "snd (update_query (now e) pid d) = set_statut ''activer'' (now e) pid p #
             map (set_statut ''activer'' (now e) pid) ys"
    by (simp add: update_query_def update_statut_query_def Let_def filter_map_set_statut f)
  have v: "fst (update_query (now e) pid d) =
        d\<lparr>prompts := map (set_statut ''activer'' (now e) pid) (prompts d)\<rparr>"
    by (simp add: update_query_def update_statut_query_def Let_def)
  show ?thesis
    by (cases "raises e 0"; cases "raises e 1"; cases "raises e 2")
       (simp_all add: activate_prompt_by_vote_def execute_query_simps check_query_def
          points_query_def Let_def Some f u v)
qed

text \<open>
  Prompt 2 of the concrete state is active: the admin's call is answered 400, not 200.
\<close>

theorem activate_prompt_by_vote_active_counterexample:
  "activate_prompt_by_vote env_ok jwt_admin 2 db_recall =
     (db_recall, Err 400 ''Ce prompt ne peut pas etre active par vote'')"
  by code_simp

text \<open>
  Claim C5, amended. An admin's call of \<open>activate_prompt_by_vote\<close> on a prompt whose
  status is \<^verbatim>\<open>activer\<close> (the check query returning) is refused with 400 by the guard
  on \<^verbatim>\<open>rappel\<close>, and the database, so the status and the modification time of the
  prompt, is left as it was.
\<close>

theorem activate_prompt_by_vote_active:
  assumes "role j = ''admin''" and "\<not> raises e 0"
    and "find (\<lambda>p. id_prompt p = pid) (prompts d) = Some p"
    and "statut p = ''activer''"
  shows "activate_prompt_by_vote e j pid d =
           (d, Err 400 ''Ce prompt ne peut pas etre active par vote'') \<and>
         http_status (snd (activate_prompt_by_vote e j pid d)) = 400"
  using assms by (simp add: activate_prompt_by_vote_cases)

theorem activate_prompt_by_vote_active_witness:
  "activate_prompt_by_vote env_ok jwt_admin 2 db_recall =
     (db_recall, Err 400 ''Ce prompt ne peut pas etre active par vote'') \<and>
   http_status (snd (activate_prompt_by_vote env_ok jwt_admin 2 db_recall)) = 400"
proof -
  have h1: "role jwt_admin = ''admin''"
    by (simp add: jwt_admin_def)
  have h2: "\<not> raises env_ok 0"
    by (simp add: env_ok_def)
  have h3: "find (\<lambda>p. id_prompt p = 2) (prompts db_recall) = Some (prompts db_recall ! 1)"
    by (simp add: db_recall_def)
  have h4: "statut (prompts db_recall ! 1) = ''activer''"
    by (simp add: db_recall_def)
  show ?thesis
    by (rule activate_prompt_by_vote_active [OF h1 h2 h3 h4])
qed

section \<open>The points query as a weighted sum\<close>

lemma concat_map_none:
  "k \<notin> key ` set xs \<Longrightarrow> concat (map (\<lambda>y. if k = key y then g y else []) xs) = []"
  by (induction xs) auto

lemma concat_map_unique:
  "distinct (map key xs) \<Longrightarrow> x \<in> set xs \<Longrightarrow> key x = k \<Longrightarrow>
   concat (map (\<lambda>y. if k = key y then g y else []) xs) = g x"
proof (induction xs)
  case Nil
  then show ?case by simp
next
  case (Cons a xs)
  show ?case
  proof (cases "x = a")
    case True
    with Cons.prems have "k \<notin> key ` set xs" by auto
    from concat_map_none [OF this] True Cons.prems show ?thesis by simp
  next
    case False
    with Cons.prems have "x \<in> set xs" "key a \<noteq> k" by auto
    with Cons show ?thesis by simp
  qed
qed

lemma find_unique:
  "distinct (map key xs) \<Longrightarrow> x \<in> set xs \<Longrightarrow> key x = k \<Longrightarrow>
   find (\<lambda>y. key y = k) xs = Some x"
  by (induction xs) auto

lemma total_points_of_sum: "total_points_of (sql_sum xs) = sum_list xs"
  by (simp add: total_points_of_def sql_sum_def)

lemma sum_list_concat_if:
  "sum_list (concat (map (\<lambda>v. if P v then [f v] else []) vs)) = sum_list (map f (filter P vs))"
  by (induction vs) simp_all

lemma concat_map_if: "concat (map (\<lambda>v. if P v then [f v] else []) vs) = map f (filter P vs)"
  by (induction vs) simp_all

lemma points_case_weight: "points_case u1 u2 = weight (id_groupe u1) (id_groupe u2)"
  by (auto simp: points_case_def weight_def)

lemma points_rows_wf:
  assumes "wf_db d"
  shows "points_rows pid d =
     concat (map (\<lambda>v. if v_id_prompt v = pid
        then [weight (groupe_of d (v_id_utilisateur v)) (creator_group d pid)] else []) (votes d))"
proof -
  from assms have du: "distinct (map id_utilisateur (utilisateurs d))"
    and dp: "distinct (map id_prompt (prompts d))"
    and cr: "\<forall>p \<in> set (prompts d). id_createur p \<in> user_ids d"
    and vo: "\<forall>v \<in> set (votes d). v_id_utilisateur v \<in> user_ids d \<and> v_id_prompt v \<in> prompt_ids d"
    by (simp_all add: wf_db_def list_all_iff)
  have inner: "concat (map (\<lambda>u1. if v_id_utilisateur v = id_utilisateur u1
          then concat (map (\<lambda>p. if v_id_prompt v = id_prompt p
              then concat (map (\<lambda>u2. if id_createur p = id_utilisateur u2
                  then if v_id_prompt v = pid then [points_case u1 u2] else []
                  else []) (utilisateurs d))
              else []) (prompts d))
          else []) (utilisateurs d)) =
        (if v_id_prompt v = pid
         then [weight (groupe_of d (v_id_utilisateur v)) (creator_group d pid)] else [])"
    if v: "v \<in> set (votes d)" for v
  proof -
    from vo v obtain u1 where u1: "u1 \<in> set (utilisateurs d)" "id_utilisateur u1 = v_id_utilisateur v"
      by (auto simp: user_ids_def)
    from vo v obtain p where p: "p \<in> set (prompts d)" "id_prompt p = v_id_prompt v"
      by (auto simp: prompt_ids_def)
    from cr p obtain u2 where u2: "u2 \<in> set (utilisateurs d)" "id_utilisateur u2 = id_createur p"
      by (auto simp: user_ids_def)
    have g1: "groupe_of d (v_id_utilisateur v) = id_groupe u1"
      using find_unique [OF du u1] by (simp add: groupe_of_def)
    have g2: "v_id_prompt v = pid \<Longrightarrow> creator_group d pid = id_groupe u2"
      using find_unique [OF dp p] find_unique [OF du u2] by (auto simp add: creator_group_def groupe_of_def)
    have "concat (map (\<lambda>u2. if id_createur p = id_utilisateur u2
                  then if v_id_prompt v = pid then [points_case u1 u2] else []
                  else []) (utilisateurs d)) =
          (if v_id_prompt v = pid then [points_case u1 u2] else [])"
      by (rule concat_map_unique [OF du u2(1) u2(2)])
    then have "concat (map (\<lambda>p. if v_id_prompt v = id_prompt p
              then concat (map (\<lambda>u2. if id_createur p = id_utilisateur u2
                  then if v_id_prompt v = pid then [points_case u1 u2] else []
                  else []) (utilisateurs d))
              else []) (prompts d)) = (if v_id_prompt v = pid then [points_case u1 u2] else [])"
      using concat_map_unique [OF dp p(1) p(2), where g = "\<lambda>p. concat (map (\<lambda>u2. if id_createur p = id_utilisateur u2
                  then if v_id_prompt v = pid then [points_case u1 u2] else []
                  else []) (utilisateurs d))"] by simp
    then have "concat (map (\<lambda>u1. if v_id_utilisateur v = id_utilisateur u1
          then concat (map (\<lambda>p. if v_id_prompt v = id_prompt p
              then concat (map (\<lambda>u2. if id_createur p = id_utilisateur u2
                  then if v_id_prompt v = pid then [points_case u1 u2] else []
                  else []) (utilisateurs d))
              else []) (prompts d))
          else []) (utilisateurs d)) = (if v_id_prompt v = pid then [points_case u1 u2] else [])"
      using concat_map_unique [OF du u1(1) u1(2), where g = "\<lambda>u1. concat (map (\<lambda>p. if v_id_prompt v = id_prompt p
              then concat (map (\<lambda>u2. if id_createur p = id_utilisateur u2
                  then if v_id_prompt v = pid then [points_case u1 u2] else []
                  else []) (utilisateurs d))
              else []) (prompts d))"] by simp
    with g1 g2 show ?thesis
      by (simp add: points_case_weight)
  qed
  show ?thesis
    unfolding points_rows_def
    by (rule arg_cong [where f = concat]) (simp add: inner cong: map_cong)
qed

lemma wf_db_vote:
  assumes "wf_db d" and "uid \<in> user_ids d" and "pid \<in> prompt_ids d"
  shows "wf_db (d\<lparr>votes := votes d @ [\<lparr>id_vote = i, v_id_utilisateur = uid, v_id_prompt = pid\<rparr>]\<rparr>)"
  using assms by (simp add: wf_db_def user_ids_def prompt_ids_def)

lemma vote_prompt_found:
  "http_status (snd (vote_prompt e uid pid d)) = 200 \<Longrightarrow> pid \<in> prompt_ids d"
proof (cases "find (\<lambda>p. id_prompt p = pid) (prompts d)")
  case None
  assume "http_status (snd (vote_prompt e uid pid d)) = 200"
  with None show ?thesis by (simp add: vote_prompt_cases split: if_splits)
next
  case (Some p)
  then have "p \<in> set (prompts d)" "id_prompt p = pid"
    by (auto simp: find_Some_iff)
  then show ?thesis by (auto simp: prompt_ids_def)
qed

lemma vote_try_total:
  assumes "http_status (snd (vote_try e uid pid d)) = 200"
  shows "snd (vote_try e uid pid d) =
      (let t = total_points_of (snd (points_query pid (d\<lparr>votes := votes d @
          [\<lparr>id_vote = next_id_vote e, v_id_utilisateur = uid, v_id_prompt = pid\<rparr>]\<rparr>)))
       in if t < 6 then Vote_recorded (next_id_vote e) t (6 - t)
          else Vote_activated (next_id_vote e) t
                 (set_statut ''activer'' (now e) pid
                    (the (find (\<lambda>p. id_prompt p = pid) (prompts d)))))"
  using vote_try_success [OF assms]
  by (auto simp add: vote_try_cases Let_def)

lemma total_points_wf:
  "wf_db d \<Longrightarrow> total_points_of (snd (points_query pid d)) = spec_total_points d pid"
  by (simp add: points_query_def total_points_of_sum points_rows_wf
      sum_list_concat_if spec_total_points_def)

text \<open>
  Claim C2. In a database whose identifiers are unique and whose references resolve,
  the total computed from the points query is the sum, over the votes recorded for the
  prompt, of 2 for a voter whose group is not null and equals the creator's group and
  of 1 otherwise. This is the total that \<open>vote_prompt\<close> reports (on the votes with the
  new one appended, for a caller who is a row of \<^verbatim>\<open>utilisateur\<close>) and the total
  that \<open>activate_prompt_by_vote\<close> reports.
\<close>

theorem total_points_weighted_sum:
  assumes "wf_db d"
  shows "total_points_of (snd (points_query pid d)) = spec_total_points d pid \<and>
    (\<forall>d' i t n u. uid \<in> user_ids d \<and>
        (vote_prompt e uid pid d = (d', Vote_recorded i t n) \<or>
         vote_prompt e uid pid d = (d', Vote_activated i t u)) \<longrightarrow>
        t = spec_total_points (d\<lparr>votes := votes d @
              [\<lparr>id_vote = next_id_vote e, v_id_utilisateur = uid, v_id_prompt = pid\<rparr>]\<rparr>) pid) \<and>
    (\<forall>d' t u. activate_prompt_by_vote e j pid d = (d', Activated_by_vote u t) \<or>
        activate_prompt_by_vote e j pid d = (d', Points_missing t) \<longrightarrow>
        t = spec_total_points d pid)"
proof (intro conjI allI impI)
  from assms show "total_points_of (snd (points_query pid d)) = spec_total_points d pid"
    by (rule total_points_wf)
next
  fix d' i t n u
  let ?dv = "d\<lparr>votes := votes d @
              [\<lparr>id_vote = next_id_vote e, v_id_utilisateur = uid, v_id_prompt = pid\<rparr>]\<rparr>"
  assume h: "uid \<in> user_ids d \<and>
        (vote_prompt e uid pid d = (d', Vote_recorded i t n) \<or>
         vote_prompt e uid pid d = (d', Vote_activated i t u))"
  then have ok: "http_status (snd (vote_prompt e uid pid d)) = 200"
    by auto
  then have eq: "vote_prompt e uid pid d = vote_try e uid pid d"
    by (rule vote_prompt_success)
  from ok have "pid \<in> prompt_ids d"
    by (rule vote_prompt_found)
  with assms h have "wf_db ?dv"
    by (simp add: wf_db_vote)
  then have "total_points_of (snd (points_query pid ?dv)) = spec_total_points ?dv pid"
    by (rule total_points_wf)
  moreover from ok eq have "http_status (snd (vote_try e uid pid d)) = 200"
    by simp
  from vote_try_total [OF this] h eq
  have "t = total_points_of (snd (points_query pid ?dv))"
    by (auto simp: Let_def split: if_splits)
  ultimately show "t = spec_total_points ?dv pid"
    by simp
next
  fix d' t u
  assume h: "activate_prompt_by_vote e j pid d = (d', Activated_by_vote u t) \<or>
        activate_prompt_by_vote e j pid d = (d', Points_missing t)"
  then have "t = total_points_of (snd (points_query pid d))"
    by (auto simp: activate_prompt_by_vote_cases split: if_splits option.splits)
  with assms show "t = spec_total_points d pid"
    by (simp add: total_points_wf)
qed

theorem total_points_weighted_sum_witness:
  "wf_db db_recall \<and> spec_total_points db_recall 1 = 4 \<and>
   total_points_of (snd (points_query 1 db_recall)) = 4"
proof -
  have h: "wf_db db_recall"
    by code_simp
  have s: "spec_total_points db_recall 1 = 4"
    by code_simp
  from total_points_weighted_sum [OF h, where pid = 1, THEN conjunct1] s
  have "total_points_of (snd (points_query 1 db_recall)) = 4"
    by simp
  with h s show ?thesis by simp
qed

section \<open>The notation of an active prompt\<close>












section \<open>The moderation queue\<close>

lemma createur_wf:
  assumes "wf_db d" and "p \<in> set (prompts d)"
  shows "createur d p \<in> set (utilisateurs d) \<and> id_utilisateur (createur d p) = id_createur p"
proof -
  from assms obtain u where u: "u \<in> set (utilisateurs d)" "id_utilisateur u = id_createur p"
    by (auto simp: wf_db_def list_all_iff user_ids_def)
  from assms(1) have "distinct (map id_utilisateur (utilisateurs d))"
    by (simp add: wf_db_def)
  from find_unique [OF this u] u show ?thesis
    by (simp add: createur_def)
qed

lemma join_createur:
  assumes "wf_db d"
  shows "concat (map (\<lambda>p. concat (map (\<lambda>u. if id_createur p = id_utilisateur u
              then if P p then [(p, u)] else [] else []) (utilisateurs d))) (prompts d)) =
         map (\<lambda>p. (p, createur d p)) (filter P (prompts d))"
proof -
  from assms have du: "distinct (map id_utilisateur (utilisateurs d))"
    by (simp add: wf_db_def)
  have inner: "concat (map (\<lambda>u. if id_createur p = id_utilisateur u
              then if P p then [(p, u)] else [] else []) (utilisateurs d)) =
         (if P p then [(p, createur d p)] else [])" if "p \<in> set (prompts d)" for p
    using createur_wf [OF assms that]
    by (intro concat_map_unique [OF du]) simp_all
  have "concat (map (\<lambda>p. concat (map (\<lambda>u. if id_createur p = id_utilisateur u
              then if P p then [(p, u)] else [] else []) (utilisateurs d))) (prompts d)) =
        concat (map (\<lambda>p. if P p then [(p, createur d p)] else []) (prompts d))"
    by (rule arg_cong [where f = concat]) (simp add: inner cong: map_cong)
  then show ?thesis
    by (simp add: concat_map_if)
qed

lemma pending_query_wf:
  assumes "wf_db d"
  shows "pending_query d =
     (d, sort_key pending_key
           (map (\<lambda>p. (p, createur d p)) [p \<leftarrow> prompts d. statut p \<in> set statuts_pending]))"
  unfolding pending_query_def statuts_pending_def
  by (simp only: join_createur [OF assms])

text \<open>
  Claim C8. For an admin (the query returning, identifiers unique and creators
  resolving) \<open>get_pending_prompts\<close> answers exactly the prompts whose status is one of
  \<^verbatim>\<open>en_attente\<close>, \<^verbatim>\<open>a_revoir\<close>, \<^verbatim>\<open>a_supprimer\<close>, \<^verbatim>\<open>rappel\<close>, each with its
  creator, and of two rows the earlier one has the smaller rank of status, or the same
  rank and a creation date that is not later; the ranks put \<^verbatim>\<open>a_supprimer\<close> before
  \<^verbatim>\<open>rappel\<close> before \<^verbatim>\<open>en_attente\<close> before \<^verbatim>\<open>a_revoir\<close>.
\<close>

theorem get_pending_prompts_listing:
  assumes "role j = ''admin''" and "\<not> raises e 0" and "wf_db d"
  shows "\<exists>rows. get_pending_prompts e j d = (d, Prompt_list rows) \<and>
     mset (map fst rows) = mset [p \<leftarrow> prompts d. statut p \<in> set statuts_pending] \<and>
     (\<forall>r \<in> set rows. snd r \<in> set (utilisateurs d) \<and>
         id_utilisateur (snd r) = id_createur (fst r)) \<and>
     (\<forall>i k. i < k \<and> k < length rows \<longrightarrow>
         statut_rank (statut (fst (rows ! i))) < statut_rank (statut (fst (rows ! k))) \<or>
         statut_rank (statut (fst (rows ! i))) = statut_rank (statut (fst (rows ! k))) \<and>
         date_creation (fst (rows ! i)) \<le> date_creation (fst (rows ! k))) \<and>
     statut_rank ''a_supprimer'' < statut_rank ''rappel'' \<and>
     statut_rank ''rappel'' < statut_rank ''en_attente'' \<and>
     statut_rank ''en_attente'' < statut_rank ''a_revoir''"
proof -
  define J where "J = map (\<lambda>p. (p, createur d p)) [p \<leftarrow> prompts d. statut p \<in> set statuts_pending]"
  define rows where "rows = sort_key pending_key J"
  have g: "get_pending_prompts e j d = (d, Prompt_list rows)"
    using assms(1,2)
    by (simp add: get_pending_prompts_def execute_query_simps pending_query_wf [OF assms(3)]
        rows_def J_def)
  have "mset rows = mset J"
    by (simp add: rows_def)
  then have "mset (map fst rows) = mset (map fst J)"
    by (metis mset_map)
  then have m: "mset (map fst rows) = mset [p \<leftarrow> prompts d. statut p \<in> set statuts_pending]"
    by (simp add: J_def comp_def)
  have c: "\<forall>r \<in> set rows. snd r \<in> set (utilisateurs d) \<and>
         id_utilisateur (snd r) = id_createur (fst r)"
    using createur_wf [OF assms(3)] by (auto simp: rows_def J_def)
  have "sorted (map pending_key rows)"
    by (simp add: rows_def)
  then have o: "pending_key (rows ! i) \<le> pending_key (rows ! k)" if "i < k" "k < length rows" for i k
    using that sorted_nth_mono [of "map pending_key rows" i k] by simp
  have ord: "\<forall>i k. i < k \<and> k < length rows \<longrightarrow>
         statut_rank (statut (fst (rows ! i))) < statut_rank (statut (fst (rows ! k))) \<or>
         statut_rank (statut (fst (rows ! i))) = statut_rank (statut (fst (rows ! k))) \<and>
         date_creation (fst (rows ! i)) \<le> date_creation (fst (rows ! k))"
  proof (intro allI impI)
    fix i k assume "i < k \<and> k < length rows"
    then have "pending_key (rows ! i) \<le> pending_key (rows ! k)"
      using o by blast
    then show "statut_rank (statut (fst (rows ! i))) < statut_rank (statut (fst (rows ! k))) \<or>
         statut_rank (statut (fst (rows ! i))) = statut_rank (statut (fst (rows ! k))) \<and>
         date_creation (fst (rows ! i)) \<le> date_creation (fst (rows ! k))"
      by (auto simp: pending_key_def less_eq_prod_def)
  qed
  have r: "statut_rank ''a_supprimer'' < statut_rank ''rappel'' \<and>
     statut_rank ''rappel'' < statut_rank ''en_attente'' \<and>
     statut_rank ''en_attente'' < statut_rank ''a_revoir''"
    by (simp add: statut_rank_def)
  from g m c ord r show ?thesis by blast
qed


theorem get_pending_prompts_listing_witness:
  "get_pending_prompts env_ok jwt_admin db_recall =
     (db_recall, Prompt_list [(prompts db_recall ! 0, utilisateurs db_recall ! 0),
                              (prompts db_recall ! 2, utilisateurs db_recall ! 4)]) \<and>
   (\<exists>rows. get_pending_prompts env_ok jwt_admin db_recall = (db_recall, Prompt_list rows) \<and>
     mset (map fst rows) = mset [p \<leftarrow> prompts db_recall. statut p \<in> set statuts_pending] \<and>
     (\<forall>r \<in> set rows. snd r \<in> set (utilisateurs db_recall) \<and>
         id_utilisateur (snd r) = id_createur (fst r)) \<and>
     (\<forall>i k. i < k \<and> k < length rows \<longrightarrow>
         statut_rank (statut (fst (rows ! i))) < statut_rank (statut (fst (rows ! k))) \<or>
         statut_rank (statut (fst (rows ! i))) = statut_rank (statut (fst (rows ! k))) \<and>
         date_creation (fst (rows ! i)) \<le> date_creation (fst (rows ! k))) \<and>
     statut_rank ''a_supprimer'' < statut_rank ''rappel'' \<and>
     statut_rank ''rappel'' < statut_rank ''en_attente'' \<and>
     statut_rank ''en_attente'' < statut_rank ''a_revoir'')"
proof -
  have h1: "role jwt_admin = ''admin''"
    by (simp add: jwt_admin_def)
  have h2: "\<not> raises env_ok 0"
    by (simp add: env_ok_def)
  have h3: "wf_db db_recall"
    by code_simp
  have v: "get_pending_prompts env_ok jwt_admin db_recall =
     (db_recall, Prompt_list [(prompts db_recall ! 0, utilisateurs db_recall ! 0),
                              (prompts db_recall ! 2, utilisateurs db_recall ! 4)])"
    by code_simp
  show ?thesis
    by (rule conjI [OF v get_pending_prompts_listing [OF h1 h2 h3]])
qed

section \<open>The public listing\<close>






section \<open>Two requests at once: no serialization\<close>

text \<open>A request whose steps run with nothing in between is the view function.\<close>

lemma vote_run_alone:
  "vote_run 5 e uid pid P_check d =
     (fst (vote_prompt e uid pid d), P_done (snd (vote_prompt e uid pid d)))"
  by (simp add: eval_nat_numeral vote_prompt_def vote_try_def execute_query_def Let_def
      split: prod.splits option.splits list.splits if_splits)

text \<open>So the schedule that lets the first request finish before the second starts is two calls
  of the view function in sequence.\<close>

lemma interleave_append:
  "interleave (s @ s') A B pid (a, b) d =
     (case interleave s A B pid (a, b) d of (d', a', b') \<Rightarrow> interleave s' A B pid (a', b') d')"
  by (induction s A B pid "(a, b)" d arbitrary: a b rule: interleave.induct)
     (simp_all del: vote_step.simps split: prod.splits)

lemma interleave_first:
  "interleave (replicate k True) A B pid (a, b) d =
     (case vote_run k (fst A) (snd A) pid a d of (d', a') \<Rightarrow> (d', a', b))"
  by (induction k arbitrary: a d) (simp_all del: vote_step.simps split: prod.splits)

lemma interleave_second:
  "interleave (replicate k False) A B pid (a, b) d =
     (case vote_run k (fst B) (snd B) pid b d of (d', b') \<Rightarrow> (d', a, b'))"
  by (induction k arbitrary: b d) (simp_all del: vote_step.simps split: prod.splits)

lemma interleave_serial:
  "interleave (replicate 5 True @ replicate 5 False) (eA, uidA) (eB, uidB) pid (P_check, P_check) d =
     (case vote_prompt eA uidA pid d of
        (d1, rA) \<Rightarrow> (case vote_prompt eB uidB pid d1 of (d2, rB) \<Rightarrow> (d2, P_done rA, P_done rB)))"
  by (simp only: interleave_append interleave_first interleave_second vote_run_alone
        fst_conv snd_conv prod.case split: prod.splits) (simp split: prod.splits)












end
